theory Spec2Isabelle
  imports Main
begin

section \<open>Texts, bytes and exceptions\<close>

text \<open>
  A Python \<open>str\<close> is modelled as a \<open>string\<close>, one \<open>char\<close> per code point (so the
  model covers the code points below 256), and a \<open>bytes\<close> value as a \<open>string\<close>, one
  \<open>char\<close> per byte. \<open>encode\<close> is \<open>str.encode()\<close>, that is UTF-8, on that range.
\<close>

definition CRLF :: string where
  "CRLF = [CHR 0x0D, CHR 0x0A]"

definition LF :: string where
  "LF = [CHR 0x0A]"

definition encode_char :: "char \<Rightarrow> string" where
  "encode_char c =
     (let n = (of_char c :: nat)
      in if n < 128 then [c]
         else [char_of (192 + n div 64), char_of (128 + n mod 64)])"

definition encode :: "string \<Rightarrow> string" where
  "encode s = concat (map encode_char s)"

text \<open>
  The exceptions that the program raises or catches by name, the operating-system errors
  its filesystem calls can raise, and \<open>Exception\<close> for every other class.
\<close>

datatype exn =
    NotImplementedError
  | NameError
  | ValueError
  | AttributeError
  | FileNotFoundError
  | NotADirectoryError
  | IsADirectoryError
  | PermissionError
  | Exception string

fun is_OSError :: "exn \<Rightarrow> bool" where
  "is_OSError FileNotFoundError = True"
| "is_OSError NotADirectoryError = True"
| "is_OSError IsADirectoryError = True"
| "is_OSError PermissionError = True"
| "is_OSError _ = False"

subsection \<open>\<open>str.split\<close>, \<open>bytes.join\<close>, \<open>in\<close>\<close>

text \<open>
  \<open>s.split(sep)\<close> for a non-empty separator: the text is cut at every occurrence of
  \<open>sep\<close>, scanning from the left without overlap; the result is never empty. (Python
  raises \<open>ValueError\<close> for an empty separator; the program passes two literals.)
\<close>

function str_split_from :: "string \<Rightarrow> string \<Rightarrow> string \<Rightarrow> string list" where
  "str_split_from sep cur [] = [cur]"
| "str_split_from sep cur (c # cs) =
     (if sep \<noteq> [] \<and> take (length sep) (c # cs) = sep
      then cur # str_split_from sep [] (drop (length sep) (c # cs))
      else str_split_from sep (cur @ [c]) cs)"
  by pat_completeness auto
termination
  by (relation "measure (\<lambda>(sep, cur, s). length s)") auto

definition str_split :: "string \<Rightarrow> string \<Rightarrow> string list" where
  "str_split s sep = str_split_from sep [] s"

text \<open>\<open>sep.join(xs)\<close>.\<close>

fun join :: "string \<Rightarrow> string list \<Rightarrow> string" where
  "join sep [] = []"
| "join sep [x] = x"
| "join sep (x # y # ys) = x @ sep @ join sep (y # ys)"

text \<open>\<open>sep in s\<close> on texts: \<open>sep\<close> occurs in \<open>s\<close>.\<close>

fun str_contains :: "string \<Rightarrow> string \<Rightarrow> bool" where
  "str_contains sep [] = (sep = [])"
| "str_contains sep (c # cs) = (take (length sep) (c # cs) = sep \<or> str_contains sep cs)"

section \<open>Response Builder\<close>

definition response_ok :: "string \<Rightarrow> string \<Rightarrow> string" where
  "response_ok body mimetype =
     join CRLF [''HTTP/1.1 200 OK'', ''Content-Type: '' @ mimetype, '''', body]"

definition response_method_not_allowed :: string where
  "response_method_not_allowed =
     join CRLF [''HTTP/1.1 405 Method Not Allowed'', '''', ''You can't do that on this server!'']"

definition response_not_found :: string where
  "response_not_found = join CRLF [''HTTP/1.1 404 Not Found'']"

section \<open>Request Parser\<close>

text \<open>
  The three names \<open>method\<close>, \<open>path\<close> and \<open>version\<close> bound by the unpacking
  assignment \<open>method, path, version = request.split("\r\n")[0].split(" ")\<close>.
\<close>

record request =
  req_method :: string
  req_path :: string
  req_version :: string

text \<open>
  The unpacking raises \<open>ValueError\<close> unless the first line has exactly three fields.
  \<open>split\<close> never returns an empty list, so the index \<open>[0]\<close> cannot fail.
\<close>

definition unpack_request :: "string \<Rightarrow> exn + request" where
  "unpack_request raw =
     (case str_split raw CRLF of
        [] \<Rightarrow> Inl (Exception ''IndexError'')
      | line # _ \<Rightarrow>
          (case str_split line '' '' of
             [m, p, v] \<Rightarrow> Inr \<lparr>req_method = m, req_path = p, req_version = v\<rparr>
           | _ \<Rightarrow> Inl ValueError))"

definition parse_request :: "string \<Rightarrow> exn + string" where
  "parse_request raw =
     (case unpack_request raw of
        Inl e \<Rightarrow> Inl e
      | Inr r \<Rightarrow> if req_method r \<noteq> ''GET'' then Inl NotImplementedError else Inr (req_path r))"

section \<open>The environment of the program\<close>

text \<open>
  What the standard library and the operating system contribute is a parameter of the
  model: \<open>guess_type\<close> is \<open>mimetypes.MimeTypes().guess_type(url)[0]\<close>, \<open>listdir\<close> is
  \<open>os.listdir\<close> (the names of the immediate children, each once, in enumeration order),
  \<open>read_binary\<close> is \<open>open(p, "rb").read()\<close>, \<open>read_text\<close> is \<open>open(p).read()\<close>
  and \<open>exec_py\<close> is the interpreter behind \<open>exec\<close>.

  A script is taken to interact with the process through \<open>sys.stdout\<close> and by raising
  only: running it gives the texts it writes to \<open>sys.stdout\<close>, in order, and the
  exception it ends with, if any. What a script does may depend on its text and on
  anything else it can observe (the clock, environment variables, interpreter globals);
  the latter is the ambient value of type \<open>'w\<close>.
\<close>

record script_run =
  writes :: "string list"
  raised :: "exn option"

record 'w environment =
  guess_type :: "string \<Rightarrow> string option"
  listdir :: "string \<Rightarrow> exn + string list"
  read_binary :: "string \<Rightarrow> exn + string"
  read_text :: "string \<Rightarrow> exn + string"
  exec_py :: "string \<Rightarrow> 'w \<Rightarrow> script_run"

subsection \<open>Process state\<close>

text \<open>
  \<open>sys_stdout\<close> is the object currently bound to \<open>sys.stdout\<close>: the stream the process
  started with, or a \<open>StringIO\<close> object. \<open>console\<close> is what has reached the real stream,
  \<open>buffers\<close> holds the value of every \<open>StringIO\<close> object and \<open>allocated\<close> counts them.
  \<open>calls\<close> is instrumentation, not a program variable: it records each call of
  \<open>run_python_script\<close> (with its path) and of \<open>exec\<close> (with the script text).
\<close>

datatype sink = RealStdout | StringIO nat

datatype call = Run_python_script string | Exec string

record pystate =
  sys_stdout :: sink
  console :: string
  buffers :: "nat \<Rightarrow> string"
  allocated :: nat
  calls :: "call list"

definition initial_state :: pystate where
  "initial_state =
     \<lparr>sys_stdout = RealStdout, console = [], buffers = (\<lambda>_. []), allocated = 0, calls = []\<rparr>"

text \<open>A write to \<open>sys.stdout\<close> goes to whatever is bound to it at that moment.\<close>

definition stdout_write :: "string \<Rightarrow> pystate \<Rightarrow> pystate" where
  "stdout_write s st =
     (case sys_stdout st of
        RealStdout \<Rightarrow> st\<lparr>console := console st @ s\<rparr>
      | StringIO i \<Rightarrow> st\<lparr>buffers := (buffers st)(i := buffers st i @ s)\<rparr>)"

definition new_StringIO :: "pystate \<Rightarrow> sink \<times> pystate" where
  "new_StringIO st =
     (StringIO (allocated st),
      st\<lparr>buffers := (buffers st)(allocated st := []), allocated := Suc (allocated st)\<rparr>)"

definition getvalue :: "sink \<Rightarrow> pystate \<Rightarrow> exn + string" where
  "getvalue out st =
     (case out of StringIO i \<Rightarrow> Inr (buffers st i) | RealStdout \<Rightarrow> Inl AttributeError)"

section \<open>Script Runner\<close>

text \<open>
  \<open>stdout_io\<close> is a generator wrapped by \<open>contextlib.contextmanager\<close>. Entering the
  \<open>with\<close> statement runs the generator up to its \<open>yield\<close>: \<open>stdout_io_enter\<close>, which
  returns the saved \<open>old\<close> and the yielded object. When the body of the \<open>with\<close>
  statement ends normally the generator is resumed and runs the statement after the
  \<open>yield\<close>: \<open>stdout_io_resume\<close>. When the body raises, the exception is thrown into the
  generator at the \<open>yield\<close>; the generator has no \<open>try\<close> around it, so the exception
  leaves the generator at once, the statement after the \<open>yield\<close> is not run, and the
  \<open>with\<close> statement re-raises the exception.
\<close>

definition stdout_io_enter :: "sink option \<Rightarrow> pystate \<Rightarrow> (sink \<times> sink) \<times> pystate" where
  "stdout_io_enter stdout st =
     (let old = sys_stdout st;
          (out, st1) = (case stdout of None \<Rightarrow> new_StringIO st | Some s \<Rightarrow> (s, st))
      in ((old, out), st1\<lparr>sys_stdout := out\<rparr>))"

definition stdout_io_resume :: "sink \<Rightarrow> pystate \<Rightarrow> pystate" where
  "stdout_io_resume old st = st\<lparr>sys_stdout := old\<rparr>"

definition with_stdout_io ::
  "sink option \<Rightarrow> (sink \<Rightarrow> pystate \<Rightarrow> (exn + unit) \<times> pystate) \<Rightarrow> pystate
     \<Rightarrow> (exn + sink) \<times> pystate" where
  "with_stdout_io stdout body st =
     (let ((old, out), st1) = stdout_io_enter stdout st
      in case body out st1 of
           (Inl e, st2) \<Rightarrow> (Inl e, st2)
         | (Inr _, st2) \<Rightarrow> (Inr out, stdout_io_resume old st2))"

text \<open>\<open>exec(text)\<close>: the script's writes reach \<open>sys.stdout\<close> one after the other.\<close>

definition exec :: "'w environment \<Rightarrow> 'w \<Rightarrow> string \<Rightarrow> pystate \<Rightarrow> (exn + unit) \<times> pystate" where
  "exec env w text st =
     (let r = exec_py env text w;
          st1 = foldl (\<lambda>s t. stdout_write t s) (st\<lparr>calls := calls st @ [Exec text]\<rparr>) (writes r)
      in case raised r of None \<Rightarrow> (Inr (), st1) | Some e \<Rightarrow> (Inl e, st1))"

definition run_python_script ::
  "'w environment \<Rightarrow> 'w \<Rightarrow> string \<Rightarrow> pystate \<Rightarrow> (exn + string \<times> string) \<times> pystate" where
  "run_python_script env w path st =
     (case with_stdout_io None
             (\<lambda>output s. case read_text env (''./webroot'' @ path) of
                            Inl e \<Rightarrow> (Inl e, s)
                          | Inr text \<Rightarrow> exec env w text s)
             (st\<lparr>calls := calls st @ [Run_python_script path]\<rparr>) of
        (Inl e, st1) \<Rightarrow> (Inl e, st1)
      | (Inr output, st1) \<Rightarrow>
          (case getvalue output st1 of
             Inl e \<Rightarrow> (Inl e, st1)
           | Inr v \<Rightarrow> (Inr (encode v, ''text/html''), st1)))"

section \<open>Path Resolver\<close>

text \<open>
  \<open>pathlib.Path(s)\<close> for a relative \<open>s\<close>: the parts are the pieces between separators,
  without the empty ones and the \<open>.\<close> ones; \<open>str\<close> joins them again. \<open>iterdir\<close> lists
  the directory named by \<open>str(p)\<close> and yields one child path per name, the name added
  as a last part. The program only builds paths from \<open>"./webroot/" + path\<close>.
\<close>

definition Path :: "string \<Rightarrow> string list" where
  "Path s = filter (\<lambda>x. x \<noteq> [] \<and> x \<noteq> ''.'') (str_split s ''/'')"

definition str_of_Path :: "string list \<Rightarrow> string" where
  "str_of_Path p = (if p = [] then ''.'' else join ''/'' p)"

definition iterdir :: "'w environment \<Rightarrow> string list \<Rightarrow> exn + string list list" where
  "iterdir env p =
     (case listdir env (str_of_Path p) of
        Inl e \<Rightarrow> Inl e
      | Inr names \<Rightarrow> Inr (map (\<lambda>name. p @ [name]) names))"

definition valid_scripts :: "string list" where
  "valid_scripts = [''make_time.py'']"

text \<open>
  \<open>path[-3:]\<close> is the last three characters, or the whole text when it is shorter;
  \<open>path[1:]\<close> is the text without its first character; \<open>str(child)[8:]\<close> is the text
  without its first eight characters.
\<close>

definition response_path ::
  "'w environment \<Rightarrow> 'w \<Rightarrow> string \<Rightarrow> pystate \<Rightarrow> (exn + string \<times> string) \<times> pystate" where
  "response_path env w path st =
     (let mime_type = (case guess_type env (''./webroot/'' @ path) of
                         None \<Rightarrow> ''text/plain'' | Some m \<Rightarrow> m);
          mime_type = encode mime_type;
          open_path = Path (''./webroot/'' @ path)
      in case iterdir env open_path of
           Inr children \<Rightarrow>
             (Inr (encode (foldl (\<lambda>content child. content @ drop 8 (str_of_Path child) @ CRLF)
                            [] children),
                   mime_type), st)
         | Inl FileNotFoundError \<Rightarrow> (Inl NameError, st)
         | Inl NotADirectoryError \<Rightarrow>
             (if drop (length path - 3) path = ''.py'' \<and> drop 1 path \<in> set valid_scripts
              then run_python_script env w path st
              else (case read_binary env (''./webroot/'' @ path) of
                      Inl e \<Rightarrow> (Inl e, st)
                    | Inr content \<Rightarrow> (Inr (content, mime_type), st)))
         | Inl e \<Rightarrow> (Inl e, st))"

section \<open>Connection Handler\<close>

text \<open>
  One connection, from the point where the receive loop has produced the request text:
  the request is printed to \<open>sys.stdout\<close>, the pipeline runs, and the two expected
  exceptions are turned into responses. Any other exception reaches the bare \<open>except\<close>,
  which prints the traceback; nothing is sent then. The connection is closed in every
  case. The result is what happens on the connection and on the error stream, in order.
\<close>

datatype event = Sendall string | Print_exc exn | Close

definition handle_connection ::
  "'w environment \<Rightarrow> 'w \<Rightarrow> string \<Rightarrow> pystate \<Rightarrow> event list \<times> pystate" where
  "handle_connection env w raw st =
     (let st1 = stdout_write (''Request received:'' @ LF @ raw @ LF @ LF @ LF) st;
          (r, st2) = (case parse_request raw of
                        Inl e \<Rightarrow> (Inl e, st1)
                      | Inr path \<Rightarrow> response_path env w path st1)
      in case r of
           Inr (body, mimetype) \<Rightarrow> ([Sendall (response_ok body mimetype), Close], st2)
         | Inl NotImplementedError \<Rightarrow> ([Sendall response_method_not_allowed, Close], st2)
         | Inl NameError \<Rightarrow> ([Sendall response_not_found, Close], st2)
         | Inl e \<Rightarrow> ([Print_exc e, Close], st2))"

section \<open>A concrete environment\<close>

text \<open>
  An instance of the environment for evaluating the program on examples: a disk with
  POSIX path resolution, a fragment of the table of \<open>mimetypes\<close>, and the behaviour of
  the interpreter on a handful of scripts.

  A disk lists its files and directories under the names of their path from the working
  directory, which is the top of the disk; paths are relative to it, as all paths of the
  program are. Resolution walks the pieces between separators: an empty piece or \<open>.\<close>
  stays, \<open>..\<close> goes up, a name goes down; going on from a regular file is the error
  ENOTDIR (\<open>NotADirectoryError\<close>), a name that is absent is the error ENOENT
  (\<open>FileNotFoundError\<close>). Files hold ASCII text, so that reading one as text and
  reading it as bytes give the same characters.
\<close>

datatype node = File string | Directory

type_synonym disk = "(string list \<times> node) list"

definition node_at :: "disk \<Rightarrow> string list \<Rightarrow> node option" where
  "node_at d p = (if p = [] then Some Directory else map_of d p)"

fun walk :: "disk \<Rightarrow> string list \<Rightarrow> string list \<Rightarrow> exn + string list \<times> node" where
  "walk d cur [] =
     (case node_at d cur of None \<Rightarrow> Inl FileNotFoundError | Some n \<Rightarrow> Inr (cur, n))"
| "walk d cur (c # cs) =
     (case node_at d cur of
        None \<Rightarrow> Inl FileNotFoundError
      | Some (File _) \<Rightarrow> Inl NotADirectoryError
      | Some Directory \<Rightarrow>
          walk d (if c = [] \<or> c = ''.'' then cur
                  else if c = ''..'' then butlast cur
                  else cur @ [c]) cs)"

definition disk_listdir :: "disk \<Rightarrow> string \<Rightarrow> exn + string list" where
  "disk_listdir d p =
     (case walk d [] (str_split p ''/'') of
        Inl e \<Rightarrow> Inl e
      | Inr (cur, File _) \<Rightarrow> Inl NotADirectoryError
      | Inr (cur, Directory) \<Rightarrow>
          Inr (map (\<lambda>(q, n). last q) (filter (\<lambda>(q, n). q \<noteq> [] \<and> butlast q = cur) d)))"

definition disk_read :: "disk \<Rightarrow> string \<Rightarrow> exn + string" where
  "disk_read d p =
     (case walk d [] (str_split p ''/'') of
        Inl e \<Rightarrow> Inl e
      | Inr (cur, Directory) \<Rightarrow> Inl IsADirectoryError
      | Inr (cur, File content) \<Rightarrow> Inr content)"

definition ends_with :: "string \<Rightarrow> string \<Rightarrow> bool" where
  "ends_with s suffix = (length suffix \<le> length s \<and> drop (length s - length suffix) s = suffix)"

definition guess_by_suffix :: "string \<Rightarrow> string option" where
  "guess_by_suffix url =
     (if ends_with url ''.html'' then Some ''text/html''
      else if ends_with url ''.txt'' then Some ''text/plain''
      else if ends_with url ''.png'' then Some ''image/png''
      else if ends_with url ''.py'' then Some ''text/x-python''
      else None)"

text \<open>
  Four scripts: one that prints, one that raises, one that prints and then raises, and
  one that prints the time. The ambient value is the reading of the clock, as text.
  \<open>print(x)\<close> writes the text of \<open>x\<close> and then the line end.
\<close>

definition script_print :: string where
  "script_print = ''print(1)''"

definition script_raise :: string where
  "script_raise = ''raise ValueError''"

definition script_print_raise :: string where
  "script_print_raise = ''print(1)'' @ LF @ ''raise ValueError''"

definition script_time :: string where
  "script_time = ''import time'' @ LF @ ''print(time.time())''"

definition python_fragment :: "string \<Rightarrow> string \<Rightarrow> script_run" where
  "python_fragment text clock =
     (if text = script_print then \<lparr>writes = [''1'', LF], raised = None\<rparr>
      else if text = script_raise then \<lparr>writes = [], raised = Some ValueError\<rparr>
      else if text = script_print_raise then \<lparr>writes = [''1'', LF], raised = Some ValueError\<rparr>
      else if text = script_time then \<lparr>writes = [clock, LF], raised = None\<rparr>
      else \<lparr>writes = [], raised = Some (Exception ''SyntaxError'')\<rparr>)"

definition posix_env :: "disk \<Rightarrow> string environment" where
  "posix_env d =
     \<lparr>guess_type = guess_by_suffix, listdir = disk_listdir d, read_binary = disk_read d,
      read_text = disk_read d, exec_py = python_fragment\<rparr>"

text \<open>
  A document root with a regular file, a directory of images, a directory whose name
  ends in \<open>.html\<close>, a script that is not on the allow-list, and \<open>make_time.py\<close> with
  the given text.
\<close>

definition webroot_with :: "string \<Rightarrow> disk" where
  "webroot_with make_time =
     [([''webroot''], Directory),
      ([''webroot'', ''file.txt''], File ''hello''),
      ([''webroot'', ''images''], Directory),
      ([''webroot'', ''images'', ''a.png''], File ''PNG1''),
      ([''webroot'', ''images'', ''b.png''], File ''PNG2''),
      ([''webroot'', ''docs.html''], Directory),
      ([''webroot'', ''docs.html'', ''index.txt''], File ''index''),
      ([''webroot'', ''other.py''], File script_print),
      ([''webroot'', ''make_time.py''], File make_time)]"

text \<open>A document root with nothing in it.\<close>

definition empty_webroot :: disk where
  "empty_webroot = [([''webroot''], Directory)]"

text \<open>
  A document root holding a regular file \<open>Xmake_time.py\<close>, and beside the document
  root a script \<open>webrootXmake_time.py\<close>.
\<close>

definition webroot_with_sibling :: disk where
  "webroot_with_sibling =
     [([''webroot''], Directory),
      ([''webroot'', ''Xmake_time.py''], File ''hello''),
      ([''webrootXmake_time.py''], File script_print)]"

section \<open>Observations\<close>

text \<open>
  The calls of \<open>run_python_script\<close> and \<open>exec\<close> made while one path is resolved: what
  the resolution adds to the record of calls.
\<close>

definition new_calls :: "'w environment \<Rightarrow> 'w \<Rightarrow> string \<Rightarrow> pystate \<Rightarrow> call list" where
  "new_calls env w path st =
     drop (length (calls st)) (calls (snd (response_path env w path st)))"

text \<open>
  The condition under which line 136 is reached: the enumeration raised
  \<open>NotADirectoryError\<close>, and the path ends in \<open>.py\<close> and is on the allow-list once
  its first character is dropped.
\<close>

definition script_branch :: "'w environment \<Rightarrow> string \<Rightarrow> bool" where
  "script_branch env path =
     (iterdir env (Path (''./webroot/'' @ path)) = Inl NotADirectoryError
      \<and> drop (length path - 3) path = ''.py'' \<and> drop 1 path \<in> set valid_scripts)"

text \<open>
  The clauses of the connection handler that turn the outcome of the pipeline into what
  happens on the connection, as a function of that outcome.
\<close>

definition dispatch :: "exn + string \<times> string \<Rightarrow> event list" where
  "dispatch r =
     (case r of
        Inr (body, mimetype) \<Rightarrow> [Sendall (response_ok body mimetype), Close]
      | Inl NotImplementedError \<Rightarrow> [Sendall response_method_not_allowed, Close]
      | Inl NameError \<Rightarrow> [Sendall response_not_found, Close]
      | Inl e \<Rightarrow> [Print_exc e, Close])"

section \<open>Splitting the request\<close>

lemma split_CRLF_first_line:
  "\<not> str_contains CRLF line \<Longrightarrow>
   str_split_from CRLF cur (line @ CRLF @ rest) = (cur @ line) # str_split_from CRLF [] rest"
proof (induction line arbitrary: cur)
  case Nil
  then show ?case by (simp add: CRLF_def)
next
  case (Cons c cs)
  then have no: "take 2 (c # cs) \<noteq> CRLF" and rest: "\<not> str_contains CRLF cs"
    by (simp_all add: CRLF_def)
  have "take 2 (c # cs @ CRLF @ rest) \<noteq> CRLF"
    using no by (cases cs) (auto simp: CRLF_def)
  then show ?case
    using Cons.IH [OF rest] by (simp add: CRLF_def)
qed

lemma split_space_field:
  "CHR '' '' \<notin> set w \<Longrightarrow>
   str_split_from '' '' cur (w @ CHR '' '' # rest) = (cur @ w) # str_split_from '' '' [] rest"
  by (induction w arbitrary: cur) auto

lemma split_space_last:
  "CHR '' '' \<notin> set w \<Longrightarrow> str_split_from '' '' cur w = [cur @ w]"
  by (induction w arbitrary: cur) auto

lemma unpack_three_fields:
  assumes "\<not> str_contains CRLF (m @ '' '' @ p @ '' '' @ v)"
    and "CHR '' '' \<notin> set m" "CHR '' '' \<notin> set p" "CHR '' '' \<notin> set v"
  shows "unpack_request ((m @ '' '' @ p @ '' '' @ v) @ CRLF @ rest)
         = Inr \<lparr>req_method = m, req_path = p, req_version = v\<rparr>"
proof -
  have "str_split ((m @ '' '' @ p @ '' '' @ v) @ CRLF @ rest) CRLF
        = (m @ '' '' @ p @ '' '' @ v) # str_split_from CRLF [] rest"
    unfolding str_split_def using split_CRLF_first_line [OF assms(1), of "[]" rest] by simp
  moreover have "str_split (m @ '' '' @ p @ '' '' @ v) '' '' = [m, p, v]"
    unfolding str_split_def
    using split_space_field [OF assms(2), of "[]" "p @ '' '' @ v"]
      split_space_field [OF assms(3), of "[]" v] split_space_last [OF assms(4), of "[]"]
    by simp
  ultimately show ?thesis by (simp add: unpack_request_def)
qed

section \<open>The response constructors\<close>

text \<open>
  C6. For every body and MIME type, \<open>response_ok\<close> returns exactly the status line
  \<open>HTTP/1.1 200 OK\<close>, a line break, the header \<open>Content-Type: <mimetype>\<close>, a line
  break, an empty line, and then the body verbatim: there is no other header (so no
  \<open>Content-Length\<close>) and nothing follows the body.
\<close>

theorem response_ok_layout:
  "response_ok body mimetype
   = ''HTTP/1.1 200 OK'' @ CRLF @ ''Content-Type: '' @ mimetype @ CRLF @ CRLF @ body"
  by (simp add: response_ok_def)

section \<open>Parsing\<close>

text \<open>
  C5. For every raw request whose first line is \<open>GET <path> HTTP/1.1\<close>, the path being
  free of spaces so that the line has exactly three fields, the unpacking binds method,
  path and version to \<open>GET\<close>, \<open><path>\<close> and \<open>HTTP/1.1\<close>, and parsing succeeds; what
  \<open>parse_request\<close> hands back to its caller is the path.
\<close>

theorem parse_request_get:
  assumes "\<not> str_contains CRLF (''GET '' @ p @ '' HTTP/1.1'')"
    and "CHR '' '' \<notin> set p"
  shows "unpack_request ((''GET '' @ p @ '' HTTP/1.1'') @ CRLF @ rest)
           = Inr \<lparr>req_method = ''GET'', req_path = p, req_version = ''HTTP/1.1''\<rparr>
         \<and> parse_request ((''GET '' @ p @ '' HTTP/1.1'') @ CRLF @ rest) = Inr p"
proof -
  have "unpack_request ((''GET'' @ '' '' @ p @ '' '' @ ''HTTP/1.1'') @ CRLF @ rest)
        = Inr \<lparr>req_method = ''GET'', req_path = p, req_version = ''HTTP/1.1''\<rparr>"
    using assms by (intro unpack_three_fields) simp_all
  then have u: "unpack_request ((''GET '' @ p @ '' HTTP/1.1'') @ CRLF @ rest)
        = Inr \<lparr>req_method = ''GET'', req_path = p, req_version = ''HTTP/1.1''\<rparr>"
    by simp
  then show ?thesis by (simp add: parse_request_def)
qed

theorem parse_request_get_witness:
  "\<not> str_contains CRLF (''GET '' @ ''/index.html'' @ '' HTTP/1.1'')
   \<and> CHR '' '' \<notin> set ''/index.html''
   \<and> unpack_request ((''GET '' @ ''/index.html'' @ '' HTTP/1.1'') @ CRLF @ ''Host: x'' @ CRLF @ CRLF)
       = Inr \<lparr>req_method = ''GET'', req_path = ''/index.html'', req_version = ''HTTP/1.1''\<rparr>
   \<and> parse_request ((''GET '' @ ''/index.html'' @ '' HTTP/1.1'') @ CRLF @ ''Host: x'' @ CRLF @ CRLF)
       = Inr ''/index.html''"
proof -
  have a: "\<not> str_contains CRLF (''GET '' @ ''/index.html'' @ '' HTTP/1.1'')"
    by (simp add: CRLF_def)
  have b: "CHR '' '' \<notin> set ''/index.html''"
    by simp
  from parse_request_get [OF a b, of "''Host: x'' @ CRLF @ CRLF"] a b
  show ?thesis by blast
qed

text \<open>
  C3. For every request that has a method (its first line unpacks into the three fields)
  and whose method is not \<open>GET\<close>, parsing fails with \<open>NotImplementedError\<close>, the
  unsupported-method condition, and all that is sent on the connection is the 405
  response: the status line, an empty line and the fixed body, after which the
  connection is closed.
\<close>

theorem method_not_get_405:
  assumes "unpack_request raw = Inr r"
    and "req_method r \<noteq> ''GET''"
  shows "parse_request raw = Inl NotImplementedError
         \<and> fst (handle_connection env w raw st)
             = [Sendall (''HTTP/1.1 405 Method Not Allowed'' @ CRLF @ CRLF
                          @ ''You can't do that on this server!''), Close]"
  using assms
  by (simp add: parse_request_def handle_connection_def response_method_not_allowed_def
      Let_def)

theorem method_not_get_405_witness:
  "unpack_request (''POST /file.txt HTTP/1.1'' @ CRLF @ CRLF)
     = Inr \<lparr>req_method = ''POST'', req_path = ''/file.txt'', req_version = ''HTTP/1.1''\<rparr>
   \<and> req_method \<lparr>req_method = ''POST'', req_path = ''/file.txt'', req_version = ''HTTP/1.1''\<rparr>
       \<noteq> ''GET''
   \<and> parse_request (''POST /file.txt HTTP/1.1'' @ CRLF @ CRLF) = Inl NotImplementedError
   \<and> fst (handle_connection (posix_env (webroot_with script_print)) ''noon''
            (''POST /file.txt HTTP/1.1'' @ CRLF @ CRLF) initial_state)
       = [Sendall (''HTTP/1.1 405 Method Not Allowed'' @ CRLF @ CRLF
                    @ ''You can't do that on this server!''), Close]"
proof -
  have "unpack_request ((''POST'' @ '' '' @ ''/file.txt'' @ '' '' @ ''HTTP/1.1'') @ CRLF @ CRLF)
        = Inr \<lparr>req_method = ''POST'', req_path = ''/file.txt'', req_version = ''HTTP/1.1''\<rparr>"
    by (intro unpack_three_fields) (simp_all add: CRLF_def)
  then have a: "unpack_request (''POST /file.txt HTTP/1.1'' @ CRLF @ CRLF)
        = Inr \<lparr>req_method = ''POST'', req_path = ''/file.txt'', req_version = ''HTTP/1.1''\<rparr>"
    by simp
  have b: "req_method \<lparr>req_method = ''POST'', req_path = ''/file.txt'', req_version = ''HTTP/1.1''\<rparr>
       \<noteq> ''GET''"
    by simp
  from method_not_get_405 [OF a b, of "posix_env (webroot_with script_print)" "''noon''"
      initial_state] a b
  show ?thesis by blast
qed

section \<open>Resolution and the script runner\<close>

lemma foldl_write_StringIO:
  "sys_stdout st = StringIO i \<Longrightarrow>
   foldl (\<lambda>s t. stdout_write t s) st ws
     = st\<lparr>buffers := (buffers st)(i := buffers st i @ concat ws)\<rparr>"
proof (induction ws arbitrary: st)
  case Nil
  then show ?case by simp
next
  case (Cons a ws)
  have "sys_stdout (stdout_write a st) = StringIO i"
    using Cons.prems by (simp add: stdout_write_def)
  from Cons.IH [OF this] have "foldl (\<lambda>s t. stdout_write t s) (stdout_write a st) ws
     = stdout_write a st\<lparr>buffers := (buffers (stdout_write a st))
          (i := buffers (stdout_write a st) i @ concat ws)\<rparr>" .
  moreover have "stdout_write a st = st\<lparr>buffers := (buffers st)(i := buffers st i @ a)\<rparr>"
    using Cons.prems by (simp add: stdout_write_def)
  ultimately show ?case by (simp add: fun_upd_def cong: if_cong)
qed

lemma run_python_script_read_error:
  assumes "read_text env (''./webroot'' @ path) = Inl e"
  shows "run_python_script env w path st
         = (Inl e, st\<lparr>calls := calls st @ [Run_python_script path],
                        buffers := (buffers st)(allocated st := []),
                        allocated := Suc (allocated st),
                        sys_stdout := StringIO (allocated st)\<rparr>)"
  using assms
  by (simp add: run_python_script_def with_stdout_io_def stdout_io_enter_def new_StringIO_def
      Let_def)

lemma run_python_script_result:
  assumes "read_text env (''./webroot'' @ path) = Inr text"
  shows "run_python_script env w path st
         = (case raised (exec_py env text w) of
              None \<Rightarrow>
                (Inr (encode (concat (writes (exec_py env text w))), ''text/html''),
                 st\<lparr>calls := calls st @ [Run_python_script path, Exec text],
                    buffers := (buffers st)(allocated st := concat (writes (exec_py env text w))),
                    allocated := Suc (allocated st)\<rparr>)
            | Some e \<Rightarrow>
                (Inl e,
                 st\<lparr>calls := calls st @ [Run_python_script path, Exec text],
                    buffers := (buffers st)(allocated st := concat (writes (exec_py env text w))),
                    allocated := Suc (allocated st),
                    sys_stdout := StringIO (allocated st)\<rparr>))"
proof -
  let ?st1 = "st\<lparr>calls := calls st @ [Run_python_script path],
                  buffers := (buffers st)(allocated st := []),
                  allocated := Suc (allocated st),
                  sys_stdout := StringIO (allocated st),
                  calls := calls st @ [Run_python_script path, Exec text]\<rparr>"
  have w: "foldl (\<lambda>s t. stdout_write t s) ?st1 (writes (exec_py env text w))
           = ?st1\<lparr>buffers := (buffers ?st1)(allocated st :=
                 buffers ?st1 (allocated st) @ concat (writes (exec_py env text w)))\<rparr>"
    by (rule foldl_write_StringIO) simp
  show ?thesis
    using assms w
    by (simp add: run_python_script_def with_stdout_io_def stdout_io_enter_def
        new_StringIO_def exec_def stdout_io_resume_def getvalue_def Let_def
        split: option.splits)
qed


lemma response_path_not_a_directory:
  assumes "iterdir env (Path (''./webroot/'' @ path)) = Inl NotADirectoryError"
  shows "response_path env w path st
         = (if drop (length path - 3) path = ''.py'' \<and> drop 1 path \<in> set valid_scripts
            then run_python_script env w path st
            else (case read_binary env (''./webroot/'' @ path) of
                    Inl e \<Rightarrow> (Inl e, st)
                  | Inr content \<Rightarrow>
                      (Inr (content,
                            encode (case guess_type env (''./webroot/'' @ path) of
                                      None \<Rightarrow> ''text/plain'' | Some m \<Rightarrow> m)), st)))"
  using assms by (simp add: response_path_def Let_def del: append.simps)

lemma response_path_keeps_state:
  assumes "iterdir env (Path (''./webroot/'' @ path)) \<noteq> Inl NotADirectoryError"
  shows "snd (response_path env w path st) = st"
  using assms by (simp add: response_path_def Let_def split: sum.splits exn.splits)

lemma fst_response_path_no_script:
  assumes "\<not> script_branch env path"
  shows "fst (response_path env w path st1) = fst (response_path env w path st2)"
    and "snd (response_path env w path st) = st"
  using assms
  by (auto simp: response_path_def script_branch_def Let_def split: sum.splits exn.splits)

lemma calls_run_python_script:
  "\<exists>cs. calls (snd (run_python_script env w path st)) = calls st @ Run_python_script path # cs"
proof (cases "read_text env (''./webroot'' @ path)")
  case (Inl e)
  then show ?thesis by (simp add: run_python_script_read_error)
next
  case (Inr t)
  then show ?thesis by (simp add: run_python_script_result split: option.splits)
qed

lemma fst_run_python_script_any_state:
  "fst (run_python_script env w path st1) = fst (run_python_script env w path st2)"
proof (cases "read_text env (''./webroot'' @ path)")
  case (Inl e)
  then show ?thesis by (simp add: run_python_script_read_error)
next
  case (Inr t)
  then show ?thesis by (simp add: run_python_script_result split: option.splits)
qed

lemma fst_response_path_any_state:
  "fst (response_path env w path st1) = fst (response_path env w path st2)"
proof (cases "script_branch env path")
  case True
  then show ?thesis
    using fst_run_python_script_any_state [of env w path st1 st2]
    by (simp add: response_path_not_a_directory script_branch_def)
next
  case False
  then show ?thesis by (rule fst_response_path_no_script)
qed

lemma fst_handle_connection:
  "fst (handle_connection env w raw st)
   = dispatch (case parse_request raw of
        Inl e \<Rightarrow> Inl e
      | Inr path \<Rightarrow>
          fst (response_path env w path
                 (stdout_write (''Request received:'' @ LF @ raw @ LF @ LF @ LF) st)))"
  by (simp add: handle_connection_def dispatch_def Let_def split_beta del: append.simps
      split: sum.splits exn.splits)

lemma fst_handle_connection_any_state:
  "fst (handle_connection env w raw st1) = fst (handle_connection env w raw st2)"
  using fst_response_path_any_state [of env w _
      "stdout_write (''Request received:'' @ LF @ raw @ LF @ LF @ LF) st1"
      "stdout_write (''Request received:'' @ LF @ raw @ LF @ LF @ LF) st2"]
  by (simp add: fst_handle_connection del: append.simps split: sum.splits)

section \<open>The allow-list\<close>

text \<open>
  What one resolution runs, in terms of the test at line 135: \<open>run_python_script\<close> is
  called exactly when that test is reached and passes, nothing is run otherwise, and a
  path that is not a directory and fails the test is read as a file.
\<close>

lemma calls_of_response_path:
  "(Run_python_script path \<in> set (new_calls env w path st)) = script_branch env path
   \<and> (\<not> script_branch env path \<longrightarrow> new_calls env w path st = [])
   \<and> (iterdir env (Path (''./webroot/'' @ path)) = Inl NotADirectoryError
        \<and> \<not> script_branch env path \<longrightarrow>
      response_path env w path st
        = (case read_binary env (''./webroot/'' @ path) of
             Inl e \<Rightarrow> (Inl e, st)
           | Inr content \<Rightarrow>
               (Inr (content,
                     encode (case guess_type env (''./webroot/'' @ path) of
                               None \<Rightarrow> ''text/plain'' | Some m \<Rightarrow> m)), st)))"
proof (cases "script_branch env path")
  case True
  then have "response_path env w path st = run_python_script env w path st"
    by (simp add: response_path_not_a_directory script_branch_def)
  moreover from calls_run_python_script [of env w path st] obtain cs where
    "calls (snd (run_python_script env w path st)) = calls st @ Run_python_script path # cs" ..
  ultimately have "new_calls env w path st = Run_python_script path # cs"
    by (simp add: new_calls_def)
  with True show ?thesis by simp
next
  case False
  then have "new_calls env w path st = []"
    by (simp add: new_calls_def fst_response_path_no_script(2))
  with False show ?thesis
    by (auto simp: response_path_not_a_directory script_branch_def)
qed

text \<open>
  C1, as amended. For every requested path with a leading separator,
  \<open>run_python_script\<close> is called if and only if the enumeration of the path as a
  directory raises \<open>NotADirectoryError\<close> (the path names something that is not a
  directory), the last three characters of the path are \<open>.py\<close>, and the path with its
  leading separator stripped is on the allow-list \<open>["make_time.py"]\<close>. In every other
  case nothing is run or executed for such a path; and when it is not a directory and
  does not meet the condition, any other \<open>.py\<close> file included, it is read with
  \<open>open(..., "rb").read()\<close>: its bytes are the content, with the guessed MIME type, or
  the error of that read is the outcome.
\<close>

theorem runner_iff_allow_listed_file:
  assumes "path = CHR ''/'' # name"
  shows "(Run_python_script path \<in> set (new_calls env w path st))
           = (iterdir env (Path (''./webroot/'' @ path)) = Inl NotADirectoryError
              \<and> drop (length path - 3) path = ''.py'' \<and> name \<in> set valid_scripts)
         \<and> (\<not> (iterdir env (Path (''./webroot/'' @ path)) = Inl NotADirectoryError
                 \<and> drop (length path - 3) path = ''.py'' \<and> name \<in> set valid_scripts)
              \<longrightarrow> new_calls env w path st = [])
         \<and> (iterdir env (Path (''./webroot/'' @ path)) = Inl NotADirectoryError
              \<and> \<not> (drop (length path - 3) path = ''.py'' \<and> name \<in> set valid_scripts)
              \<longrightarrow>
             response_path env w path st
               = (case read_binary env (''./webroot/'' @ path) of
                    Inl e \<Rightarrow> (Inl e, st)
                  | Inr content \<Rightarrow>
                      (Inr (content,
                            encode (case guess_type env (''./webroot/'' @ path) of
                                      None \<Rightarrow> ''text/plain'' | Some m \<Rightarrow> m)), st)))"
proof -
  have "drop 1 path = name"
    using assms by simp
  then have b: "script_branch env path
        = (iterdir env (Path (''./webroot/'' @ path)) = Inl NotADirectoryError
           \<and> drop (length path - 3) path = ''.py'' \<and> name \<in> set valid_scripts)"
    by (simp add: script_branch_def)
  from calls_of_response_path [of path env w st] show ?thesis
    unfolding b by blast
qed

theorem runner_iff_allow_listed_file_witness:
  "''/other.py'' = CHR ''/'' # ''other.py''
   \<and> iterdir (posix_env (webroot_with script_print)) (Path (''./webroot/'' @ ''/other.py''))
       = Inl NotADirectoryError
   \<and> \<not> (drop (length ''/other.py'' - 3) ''/other.py'' = ''.py''
          \<and> ''other.py'' \<in> set valid_scripts)
   \<and> new_calls (posix_env (webroot_with script_print)) ''noon'' ''/other.py'' initial_state = []
   \<and> fst (response_path (posix_env (webroot_with script_print)) ''noon'' ''/other.py''
            initial_state)
       = Inr (''print(1)'', ''text/x-python'')
   \<and> ''/make_time.py'' = CHR ''/'' # ''make_time.py''
   \<and> iterdir (posix_env (webroot_with script_print)) (Path (''./webroot/'' @ ''/make_time.py''))
       = Inl NotADirectoryError
   \<and> drop (length ''/make_time.py'' - 3) ''/make_time.py'' = ''.py''
   \<and> ''make_time.py'' \<in> set valid_scripts
   \<and> Run_python_script ''/make_time.py''
       \<in> set (new_calls (posix_env (webroot_with script_print)) ''noon'' ''/make_time.py''
                initial_state)"
proof -
  let ?E = "posix_env (webroot_with script_print)"
  have p1: "''/other.py'' = CHR ''/'' # ''other.py''"
    by simp
  have p2: "''/make_time.py'' = CHR ''/'' # ''make_time.py''"
    by simp
  have a: "iterdir ?E (Path (''./webroot/'' @ ''/other.py'')) = Inl NotADirectoryError"
    by code_simp
  have b: "\<not> (drop (length ''/other.py'' - 3) ''/other.py'' = ''.py''
          \<and> ''other.py'' \<in> set valid_scripts)"
    by code_simp
  have c1: "iterdir ?E (Path (''./webroot/'' @ ''/make_time.py'')) = Inl NotADirectoryError"
    by code_simp
  have c2: "drop (length ''/make_time.py'' - 3) ''/make_time.py'' = ''.py''"
    by code_simp
  have c3: "''make_time.py'' \<in> set valid_scripts"
    by code_simp
  have d: "read_binary ?E (''./webroot/'' @ ''/other.py'') = Inr ''print(1)''"
    by code_simp
  have e: "encode (case guess_type ?E (''./webroot/'' @ ''/other.py'') of
                     None \<Rightarrow> ''text/plain'' | Some m \<Rightarrow> m) = ''text/x-python''"
    by code_simp
  from runner_iff_allow_listed_file [OF p1, of ?E "''noon''" initial_state] a b
  have "new_calls ?E ''noon'' ''/other.py'' initial_state = []"
    and "response_path ?E ''noon'' ''/other.py'' initial_state
         = (case read_binary ?E (''./webroot/'' @ ''/other.py'') of
              Inl e \<Rightarrow> (Inl e, initial_state)
            | Inr content \<Rightarrow>
                (Inr (content,
                      encode (case guess_type ?E (''./webroot/'' @ ''/other.py'') of
                                None \<Rightarrow> ''text/plain'' | Some m \<Rightarrow> m)), initial_state))"
    by blast+
  then have f: "new_calls ?E ''noon'' ''/other.py'' initial_state = []"
    and g: "fst (response_path ?E ''noon'' ''/other.py'' initial_state)
            = Inr (''print(1)'', ''text/x-python'')"
    by (simp_all only: d e sum.case fst_conv)
  from runner_iff_allow_listed_file [OF p2, of ?E "''noon''" initial_state] c1 c2 c3
  have h: "Run_python_script ''/make_time.py''
           \<in> set (new_calls ?E ''noon'' ''/make_time.py'' initial_state)"
    by blast
  from p1 p2 a b c1 c2 c3 f g h show ?thesis by blast
qed

text \<open>
  C1 as first stated makes the call depend on the text of the path alone. On a document
  root without \<open>make_time.py\<close> the path \<open>/make_time.py\<close> ends in \<open>.py\<close> and is on the
  allow-list once its separator is dropped, yet the enumeration raises
  \<open>FileNotFoundError\<close>, \<open>run_python_script\<close> is not called, and the outcome is
  \<open>NameError\<close>.
\<close>

theorem runner_not_invoked_for_missing_script:
  "drop (length ''/make_time.py'' - 3) ''/make_time.py'' = ''.py''
   \<and> drop 1 ''/make_time.py'' \<in> set valid_scripts
   \<and> new_calls (posix_env empty_webroot) ''noon'' ''/make_time.py'' initial_state = []
   \<and> fst (response_path (posix_env empty_webroot) ''noon'' ''/make_time.py'' initial_state)
       = Inl NameError"
  by code_simp

text \<open>
  The test at line 135 drops the first character of the path whatever it is, and the
  script is then read from \<open>"./webroot" + path\<close>, with no separator in between. For
  the request path \<open>Xmake_time.py\<close>, where the document root holds a regular file of
  that name, the test passes and the file \<open>webrootXmake_time.py\<close>, which lies beside
  the document root, is executed. The comment above the allow-list says that the check
  is there to keep what the client sends from deciding what is executed; the amended
  property above leaves paths without a leading separator out.
\<close>

lemma first_character_not_checked:
  "new_calls (posix_env webroot_with_sibling) ''noon'' ''Xmake_time.py'' initial_state
     = [Run_python_script ''Xmake_time.py'', Exec script_print]
   \<and> fst (response_path (posix_env webroot_with_sibling) ''noon'' ''Xmake_time.py''
            initial_state)
       = Inr (''1'' @ LF, ''text/html'')"
  by code_simp

section \<open>Running the allow-listed script\<close>

text \<open>
  C8. For every allow-listed script path (it is not a directory and its script can be
  read), when the script runs to completion the resolution returns, as content, the
  encoded text of everything the script wrote to \<open>sys.stdout\<close>, in order, with the MIME
  type \<open>text/html\<close>. All of those writes went to the \<open>StringIO\<close> buffer: nothing was
  added to the real output stream. The script was executed by one call of \<open>exec\<close>
  inside one call of \<open>run_python_script\<close>.
\<close>

theorem allow_listed_script_captured:
  assumes "iterdir env (Path (''./webroot/'' @ path)) = Inl NotADirectoryError"
    and "drop 1 path \<in> set valid_scripts"
    and "read_text env (''./webroot'' @ path) = Inr text"
    and "raised (exec_py env text w) = None"
  shows "fst (response_path env w path st)
           = Inr (encode (concat (writes (exec_py env text w))), ''text/html'')
         \<and> console (snd (response_path env w path st)) = console st
         \<and> new_calls env w path st = [Run_python_script path, Exec text]"
proof -
  from assms(2) obtain c where "path = c # ''make_time.py''"
    by (cases path) (simp_all add: valid_scripts_def)
  then have "drop (length path - 3) path = ''.py''"
    by simp
  then have "response_path env w path st = run_python_script env w path st"
    using assms(1,2) by (simp add: response_path_not_a_directory)
  then show ?thesis
    using assms(3,4) by (simp add: run_python_script_result new_calls_def)
qed

theorem allow_listed_script_captured_witness:
  "iterdir (posix_env (webroot_with script_print)) (Path (''./webroot/'' @ ''/make_time.py''))
     = Inl NotADirectoryError
   \<and> drop 1 ''/make_time.py'' \<in> set valid_scripts
   \<and> read_text (posix_env (webroot_with script_print)) (''./webroot'' @ ''/make_time.py'')
       = Inr ''print(1)''
   \<and> raised (exec_py (posix_env (webroot_with script_print)) ''print(1)'' ''noon'') = None
   \<and> fst (response_path (posix_env (webroot_with script_print)) ''noon'' ''/make_time.py''
            initial_state)
       = Inr (''1'' @ LF, ''text/html'')
   \<and> console (snd (response_path (posix_env (webroot_with script_print)) ''noon''
                      ''/make_time.py'' initial_state)) = console initial_state
   \<and> new_calls (posix_env (webroot_with script_print)) ''noon'' ''/make_time.py'' initial_state
       = [Run_python_script ''/make_time.py'', Exec ''print(1)'']"
proof -
  let ?E = "posix_env (webroot_with script_print)"
  have a: "iterdir ?E (Path (''./webroot/'' @ ''/make_time.py'')) = Inl NotADirectoryError"
    by code_simp
  have b: "drop 1 ''/make_time.py'' \<in> set valid_scripts"
    by code_simp
  have c: "read_text ?E (''./webroot'' @ ''/make_time.py'') = Inr ''print(1)''"
    by code_simp
  have d: "raised (exec_py ?E ''print(1)'' ''noon'') = None"
    by code_simp
  have e: "encode (concat (writes (exec_py ?E ''print(1)'' ''noon''))) = ''1'' @ LF"
    by code_simp
  from allow_listed_script_captured [OF a b c d, of initial_state] a b c d
  show ?thesis unfolding e by blast
qed

section \<open>Errors of the file read\<close>

text \<open>
  C10. When the enumeration raises \<open>NotADirectoryError\<close>, the path is not an allow-listed
  script, and the read of the file itself raises an operating-system error (as for
  \<open>/file.txt/extra\<close>, where \<open>file.txt\<close> is a regular file), that error is the outcome of
  the resolution: it is not turned into \<open>NameError\<close>, so no 404 is sent; the connection
  handler prints the traceback and closes the connection without sending anything.
\<close>

theorem open_error_propagates:
  assumes "parse_request raw = Inr path"
    and "iterdir env (Path (''./webroot/'' @ path)) = Inl NotADirectoryError"
    and "\<not> (drop (length path - 3) path = ''.py'' \<and> drop 1 path \<in> set valid_scripts)"
    and "read_binary env (''./webroot/'' @ path) = Inl e"
    and "is_OSError e"
  shows "fst (response_path env w path st) = Inl e \<and> e \<noteq> NameError
         \<and> fst (handle_connection env w raw st) = [Print_exc e, Close]"
proof -
  have r: "response_path env w path s = (Inl e, s)" for s
    using assms(2-4) by (auto simp: response_path_not_a_directory)
  have "e \<noteq> NameError" "e \<noteq> NotImplementedError"
    using assms(5) by auto
  then show ?thesis
    using assms(1) r by (cases e) (simp_all add: fst_handle_connection dispatch_def)
qed

theorem open_error_propagates_witness:
  "parse_request (''GET /file.txt/extra HTTP/1.1'' @ CRLF @ CRLF) = Inr ''/file.txt/extra''
   \<and> iterdir (posix_env (webroot_with script_print)) (Path (''./webroot/'' @ ''/file.txt/extra''))
       = Inl NotADirectoryError
   \<and> \<not> (drop (length ''/file.txt/extra'' - 3) ''/file.txt/extra'' = ''.py''
          \<and> drop 1 ''/file.txt/extra'' \<in> set valid_scripts)
   \<and> read_binary (posix_env (webroot_with script_print)) (''./webroot/'' @ ''/file.txt/extra'')
       = Inl NotADirectoryError
   \<and> is_OSError NotADirectoryError
   \<and> fst (response_path (posix_env (webroot_with script_print)) ''noon'' ''/file.txt/extra''
            initial_state) = Inl NotADirectoryError
   \<and> NotADirectoryError \<noteq> NameError
   \<and> fst (handle_connection (posix_env (webroot_with script_print)) ''noon''
            (''GET /file.txt/extra HTTP/1.1'' @ CRLF @ CRLF) initial_state)
       = [Print_exc NotADirectoryError, Close]"
proof -
  let ?E = "posix_env (webroot_with script_print)"
  have a: "parse_request (''GET /file.txt/extra HTTP/1.1'' @ CRLF @ CRLF) = Inr ''/file.txt/extra''"
    by code_simp
  have b: "iterdir ?E (Path (''./webroot/'' @ ''/file.txt/extra'')) = Inl NotADirectoryError"
    by code_simp
  have c: "\<not> (drop (length ''/file.txt/extra'' - 3) ''/file.txt/extra'' = ''.py''
          \<and> drop 1 ''/file.txt/extra'' \<in> set valid_scripts)"
    by code_simp
  have d: "read_binary ?E (''./webroot/'' @ ''/file.txt/extra'') = Inl NotADirectoryError"
    by code_simp
  have e: "is_OSError NotADirectoryError"
    by simp
  from open_error_propagates [OF a b c d e, of "''noon''" initial_state] a b c d e
  show ?thesis by blast
qed

section \<open>Repeating a request\<close>

text \<open>
  C9, as amended. Issuing the same request twice against the same document root, with
  the script (in the allow-listed case) finding the same ambient conditions both times,
  yields the same events on the connection, and so byte-identical responses: the
  response does not depend on what earlier requests left in the process, the binding of
  \<open>sys.stdout\<close> included.
\<close>

theorem same_request_same_response:
  "fst (handle_connection env w raw (snd (handle_connection env w raw st)))
   = fst (handle_connection env w raw st)"
  by (rule fst_handle_connection_any_state)

text \<open>
  C9 as first stated asks for equal responses whenever request and document root are
  the same. The script that prints the time answers the same request differently when
  the clock has moved on in between.
\<close>

theorem same_request_different_response:
  "fst (handle_connection (posix_env (webroot_with script_time)) ''12:00''
          (''GET /make_time.py HTTP/1.1'' @ CRLF @ CRLF) initial_state)
   \<noteq> fst (handle_connection (posix_env (webroot_with script_time)) ''12:01''
            (''GET /make_time.py HTTP/1.1'' @ CRLF @ CRLF)
            (snd (handle_connection (posix_env (webroot_with script_time)) ''12:00''
                    (''GET /make_time.py HTTP/1.1'' @ CRLF @ CRLF) initial_state)))"
  by code_simp

section \<open>Directory listings\<close>

text \<open>
  When the enumeration succeeds, the content is one entry per name that \<open>listdir\<close>
  returned, in that order: the path of the child below the document root (the parts of
  the requested path, then the name), followed by a line break. The MIME type is the one
  guessed from the path, and \<open>text/plain\<close> only when nothing could be guessed.
\<close>

lemma split_webroot:
  "str_split (''./webroot/'' @ path) ''/'' = ''.'' # ''webroot'' # str_split path ''/''"
  by (simp add: str_split_def)

lemma Path_webroot: "Path (''./webroot/'' @ path) = ''webroot'' # Path path"
  unfolding Path_def split_webroot by simp

lemma join_Cons: "ps \<noteq> [] \<Longrightarrow> join sep (p # ps) = p @ sep @ join sep ps"
  by (cases ps) simp_all

lemma drop_webroot_child:
  "drop 8 (str_of_Path ((''webroot'' # ps) @ [n])) = join ''/'' (ps @ [n])"
  by (simp add: str_of_Path_def join_Cons)

lemma foldl_append_concat:
  "foldl (\<lambda>content child. content @ f child) acc xs = acc @ concat (map f xs)"
  by (induction xs arbitrary: acc) simp_all

lemma foldl_listing:
  "foldl (\<lambda>content child. content @ f child) [] xs = concat (map f xs)"
  by (simp add: foldl_append_concat)

lemma directory_listing:
  assumes "listdir env (str_of_Path (Path (''./webroot/'' @ path))) = Inr names"
  shows "response_path env w path st
         = (Inr (encode (concat (map (\<lambda>name. join ''/'' (Path path @ [name]) @ CRLF) names)),
                 encode (case guess_type env (''./webroot/'' @ path) of
                           None \<Rightarrow> ''text/plain'' | Some m \<Rightarrow> m)), st)"
proof -
  have "iterdir env (Path (''./webroot/'' @ path))
        = Inr (map (\<lambda>name. (''webroot'' # Path path) @ [name]) names)"
    using assms by (simp add: iterdir_def Path_webroot del: append.simps)
  then show ?thesis
    by (simp add: response_path_def Let_def foldl_listing drop_webroot_child comp_def
        del: append.simps)
qed

text \<open>
  C7. The property asks that a path resolving to an existing directory yields the listing
  of its immediate children, each once, without the document-root prefix and ended by a
  line break, with MIME type \<open>text/plain\<close>. The listing is as stated (lemma
  \<open>directory_listing\<close>), the MIME type is not: for the directory \<open>docs.html\<close> of the
  document root, holding the one file \<open>index.txt\<close>, the type is guessed from the suffix
  of the directory's name, and the listing is sent as \<open>text/html\<close>.
\<close>

theorem directory_with_suffix_not_text_plain:
  "listdir (posix_env (webroot_with script_print))
     (str_of_Path (Path (''./webroot/'' @ ''/docs.html''))) = Inr [''index.txt'']
   \<and> fst (response_path (posix_env (webroot_with script_print)) ''noon'' ''/docs.html''
            initial_state)
       = Inr (''docs.html/index.txt'' @ CRLF, ''text/html'')
   \<and> fst (handle_connection (posix_env (webroot_with script_print)) ''noon''
            (''GET /docs.html HTTP/1.1'' @ CRLF @ CRLF) initial_state)
       = [Sendall (''HTTP/1.1 200 OK'' @ CRLF @ ''Content-Type: text/html'' @ CRLF @ CRLF
                    @ ''docs.html/index.txt'' @ CRLF), Close]"
  by code_simp

section \<open>Paths without a mapping\<close>

text \<open>
  When the enumeration raises \<open>FileNotFoundError\<close>, the resolution raises \<open>NameError\<close>
  and the 404 status line is all that is sent.
\<close>

lemma missing_path_404:
  assumes "parse_request raw = Inr path"
    and "iterdir env (Path (''./webroot/'' @ path)) = Inl FileNotFoundError"
  shows "fst (response_path env w path st) = Inl NameError"
    and "fst (handle_connection env w raw st) = [Sendall ''HTTP/1.1 404 Not Found'', Close]"
proof -
  show r: "fst (response_path env w path s) = Inl NameError" for s
    using assms(2) by (simp add: response_path_def Let_def del: append.simps)
  show "fst (handle_connection env w raw st) = [Sendall ''HTTP/1.1 404 Not Found'', Close]"
    using assms(1) r by (simp add: fst_handle_connection dispatch_def response_not_found_def)
qed

text \<open>
  C4. The property asks that every path with no filesystem mapping under the document
  root fails with \<open>NameError\<close> and is answered by the 404 status line. It is so when
  the enumeration raises \<open>FileNotFoundError\<close> (lemma \<open>missing_path_404\<close>). The path
  \<open>/file.txt/extra\<close>, below the regular file \<open>file.txt\<close>, has no mapping either: its
  lookup fails with ENOTDIR, the enumeration raises \<open>NotADirectoryError\<close>, the handler
  of that error opens the path, the open raises \<open>NotADirectoryError\<close> again, and this
  error leaves the resolution. No 404 is sent: the traceback is printed and the
  connection is closed.
\<close>

theorem unmapped_path_below_file_no_404:
  "walk (webroot_with script_print) [] (str_split (''./webroot/'' @ ''/file.txt/extra'') ''/'')
     = Inl NotADirectoryError
   \<and> fst (response_path (posix_env (webroot_with script_print)) ''noon'' ''/file.txt/extra''
            initial_state) = Inl NotADirectoryError
   \<and> fst (handle_connection (posix_env (webroot_with script_print)) ''noon''
            (''GET /file.txt/extra HTTP/1.1'' @ CRLF @ CRLF) initial_state)
       = [Print_exc NotADirectoryError, Close]"
  by code_simp

section \<open>Redirection of the output\<close>

text \<open>
  When the script completes, \<open>sys.stdout\<close> is bound again to what it was bound to
  before. When the script raises, the statement after the \<open>yield\<close> of \<open>stdout_io\<close>
  is not reached, and \<open>sys.stdout\<close> stays bound to the \<open>StringIO\<close> object.
\<close>

lemma stdout_restored_when_script_completes:
  assumes "read_text env (''./webroot'' @ path) = Inr t"
    and "raised (exec_py env t w) = None"
  shows "sys_stdout (snd (run_python_script env w path st)) = sys_stdout st"
  using assms by (simp add: run_python_script_result)

lemma stdout_kept_redirected_when_script_raises:
  assumes "read_text env (''./webroot'' @ path) = Inr t"
    and "raised (exec_py env t w) = Some e"
  shows "fst (run_python_script env w path st) = Inl e"
    and "sys_stdout (snd (run_python_script env w path st)) = StringIO (allocated st)"
  using assms by (simp_all add: run_python_script_result)

text \<open>
  C2. The property asks that \<open>sys.stdout\<close> is restored to its prior value on every exit
  path of a script execution, also when the script raises. With a \<open>make_time.py\<close> whose
  text is \<open>raise ValueError\<close>, the process starts with the real stream bound to
  \<open>sys.stdout\<close>; the request for \<open>/make_time.py\<close> ends with \<open>ValueError\<close> reaching
  the connection handler, and \<open>sys.stdout\<close> is bound to the first \<open>StringIO\<close> object
  afterwards, in \<open>run_python_script\<close> and still when the connection has been closed.
\<close>

theorem stdout_not_restored_after_script_error:
  "sys_stdout initial_state = RealStdout
   \<and> fst (run_python_script (posix_env (webroot_with script_raise)) ''noon'' ''/make_time.py''
            initial_state) = Inl ValueError
   \<and> sys_stdout (snd (run_python_script (posix_env (webroot_with script_raise)) ''noon''
                         ''/make_time.py'' initial_state)) = StringIO 0
   \<and> fst (handle_connection (posix_env (webroot_with script_raise)) ''noon''
            (''GET /make_time.py HTTP/1.1'' @ CRLF @ CRLF) initial_state)
       = [Print_exc ValueError, Close]
   \<and> sys_stdout (snd (handle_connection (posix_env (webroot_with script_raise)) ''noon''
            (''GET /make_time.py HTTP/1.1'' @ CRLF @ CRLF) initial_state)) = StringIO 0"
  by code_simp

end
